theory Spec2Isabelle
  imports Main "HOL-Library.Sublist"
begin

section \<open>Python values used by app.py\<close>

text \<open>
  Python strings are modelled as \<^typ>\<open>string\<close>; a character outside ASCII is the
  sequence of its UTF-8 bytes. Concatenation and containment of well-formed strings are
  the same on code points and on their UTF-8 encoding.
\<close>

definition newline :: string where
  "newline = [CHR 0x0A]"

definition em_dash :: string where
  "em_dash = [CHR 0xE2, CHR 0x80, CHR 0x94]"

definition bullet :: string where
  "bullet = [CHR 0xE2, CHR 0x80, CHR 0xA2]"

text \<open>
  A raised exception: whether it is an instance of \<^verbatim>\<open>Exception\<close> (every error class
  is; \<^verbatim>\<open>KeyboardInterrupt\<close>, \<^verbatim>\<open>SystemExit\<close> and \<^verbatim>\<open>GeneratorExit\<close> derive from
  \<^verbatim>\<open>BaseException\<close> only), and what \<^verbatim>\<open>str(e)\<close> does: it yields a string, or it raises
  in its turn (a \<^verbatim>\<open>__str__\<close> that raises, or one that returns something that is not a
  string, for which Python raises a \<^verbatim>\<open>TypeError\<close>).
  A computation that may raise has the type \<open>py_exc + 'a\<close>: \<open>Inl e\<close> is the raise.
\<close>

datatype py_exc = PyExc (is_Exception: bool) (exc_str: "py_exc + string")

text \<open>
  The \<^verbatim>\<open>user_notes\<close> argument is untyped in the source: \<^verbatim>\<open>None\<close> (the default), a string
  (what \<^verbatim>\<open>main\<close> passes), or any other object, which the body only tests for truth
  and formats; such an object is given by what \<^verbatim>\<open>bool(obj)\<close> and \<^verbatim>\<open>format(obj, '')\<close> do.
\<close>

datatype py_notes =
    PyNone
  | PyStr string
  | PyObj "py_exc + bool" "py_exc + string"

fun truthy :: "py_notes \<Rightarrow> py_exc + bool" where
  "truthy PyNone = Inr False"
| "truthy (PyStr s) = Inr (s \<noteq> [])"
| "truthy (PyObj b f) = b"

fun format_value :: "py_notes \<Rightarrow> py_exc + string" where
  "format_value PyNone = Inr ''None''"
| "format_value (PyStr s) = Inr s"
| "format_value (PyObj b f) = f"

text \<open>The values stored in the result dictionary, and the dictionary itself, in insertion order.\<close>

datatype py_value = VBool bool | VStr string

type_synonym py_dict = "(string \<times> py_value) list"

section \<open>The instruction template\<close>

definition SYSTEM_PROMPT_lines :: "string list" where
  "SYSTEM_PROMPT_lines =
    [''You are a certified nutrition analyst. You receive (a) a single food image and (b) optional user notes.'',
     ''Your tasks:'',
     ''1) Identify the food items present. If uncertain, state assumptions explicitly.'',
     ''2) Estimate portion sizes (grams or common household measures) as seen; if uncertain, give a conservative range and say why.'',
     ''3) Provide calories per item and a total calorie estimate.'',
     ''4) Include macronutrient breakdown per item when reasonably inferable (protein, carbs, fat in grams).'',
     ''5) Flag allergens or dietary considerations (e.g., nuts, dairy, gluten) if likely present; explain uncertainty.'',
     ''6) Offer healthier swap suggestions or portion guidance for common goals (weight loss, maintenance, muscle gain)'' @ em_dash @ ''keep it brief and practical.'',
     '''',
     ''Formatting (use exactly this structure):'',
     ''- Items Detected:'',
     ''  1) <Item name> '' @ em_dash @ '' ~<portion> '' @ em_dash @ '' ~<kcal> kcal'',
     ''     '' @ bullet @ '' Macros (est.): P ~x g, C ~y g, F ~z g'',
     ''  2) ...'',
     '''',
     ''- Assumptions & Uncertainty:'',
     ''  '' @ bullet @ '' <short bullet on any visual ambiguity and its impact on estimates>'',
     '''',
     ''- Total Estimated Calories: ~<sum> kcal'',
     '''',
     ''- Notes & Tips:'',
     ''  '' @ bullet @ '' <one-line practical advice or swap>'',
     ''  '' @ bullet @ '' <one-line safety/allergen caveat if relevant>'',
     '''',
     ''Constraints & Behavior:'',
     ''- If visibility is poor or items are occluded, say so and provide a best-effort range.'',
     ''- Do not invent precise values when uncertain; provide ranges and label them.'',
     ''- Prefer standard reference foods and typical preparation methods unless user notes say otherwise.'',
     ''- Be concise but complete. Avoid long paragraphs; prefer clean bullets.'']"

fun join_lines :: "string list \<Rightarrow> string" where
  "join_lines [] = []"
| "join_lines [l] = l"
| "join_lines (l # ls) = l @ newline @ join_lines ls"

definition SYSTEM_PROMPT :: string where
  "SYSTEM_PROMPT = join_lines SYSTEM_PROMPT_lines"

section \<open>The transport\<close>

text \<open>
  \<^verbatim>\<open>model.generate_content([full_prompt, image])\<close> is a call into the generative-model
  library. It either raises or returns a response object, whose \<^verbatim>\<open>text\<close> attribute is a
  property that either raises or yields a string. The image is an object passed by
  reference, so the call also returns the image as it leaves it.
\<close>

datatype response = Response (response_text: "py_exc + string")

record 'img model =
  generate_content :: "string \<Rightarrow> 'img \<Rightarrow> (py_exc + response) \<times> 'img"

section \<open>analyze_food_image\<close>

definition user_message :: "py_notes \<Rightarrow> py_exc + string" where
  "user_message user_notes =
     (case truthy user_notes of
        Inl e \<Rightarrow> Inl e
      | Inr True \<Rightarrow>
          (case format_value user_notes of
             Inl e \<Rightarrow> Inl e
           | Inr s \<Rightarrow> Inr (''User notes: '' @ s))
      | Inr False \<Rightarrow> Inr ''No additional notes provided.'')"

definition full_prompt :: "py_notes \<Rightarrow> py_exc + string" where
  "full_prompt user_notes =
     (case user_message user_notes of
        Inl e \<Rightarrow> Inl e
      | Inr um \<Rightarrow> Inr (SYSTEM_PROMPT @ newline @ newline @ um))"

text \<open>
  The body of the \<^verbatim>\<open>try\<close> block: the prompt is built, the transport is called, the text
  of the response is read and the success dictionary is returned. The first exception
  raised ends the body; the image is returned as the body leaves it.
\<close>

definition try_body ::
    "'img model \<Rightarrow> 'img \<Rightarrow> py_notes \<Rightarrow> (py_exc + py_dict) \<times> 'img" where
  "try_body model img user_notes =
     (case full_prompt user_notes of
        Inl e \<Rightarrow> (Inl e, img)
      | Inr p \<Rightarrow>
          (case generate_content model p img of
             (Inl e, img') \<Rightarrow> (Inl e, img')
           | (Inr response, img') \<Rightarrow>
               (case response_text response of
                  Inl e \<Rightarrow> (Inl e, img')
                | Inr t \<Rightarrow>
                    (Inr [(''success'', VBool True), (''analysis'', VStr t)], img'))))"

text \<open>
  The handler \<^verbatim>\<open>except Exception as e\<close>: an exception that is not an instance of
  \<^verbatim>\<open>Exception\<close> is not caught and propagates. For an instance the handler evaluates
  \<^verbatim>\<open>str(e)\<close>, outside the \<^verbatim>\<open>try\<close> block: when that yields a string the failure
  dictionary is returned, and when it raises the exception leaves the handler.
\<close>

definition except_Exception :: "py_exc \<Rightarrow> py_exc + py_dict" where
  "except_Exception e =
     (if is_Exception e
      then (case exc_str e of
              Inl e' \<Rightarrow> Inl e'
            | Inr s \<Rightarrow> Inr [(''success'', VBool False), (''error'', VStr s)])
      else Inl e)"

definition analyze_food_image ::
    "'img model \<Rightarrow> 'img \<Rightarrow> py_notes \<Rightarrow> (py_exc + py_dict) \<times> 'img" where
  "analyze_food_image model img user_notes =
     (case try_body model img user_notes of
        (Inl e, img') \<Rightarrow> (except_Exception e, img')
      | (Inr result, img') \<Rightarrow> (Inr result, img'))"

text \<open>
  The specification's result type, and how a dictionary returned by the code is read as
  one: \<^verbatim>\<open>success\<close> true with an \<^verbatim>\<open>analysis\<close> string and no \<^verbatim>\<open>error\<close> key is a
  \<open>Success\<close>; \<^verbatim>\<open>success\<close> false with an \<^verbatim>\<open>error\<close> string and no \<^verbatim>\<open>analysis\<close> key is
  a \<open>Failure\<close>; any other dictionary is neither.
\<close>

datatype AnalysisResult = Success string | Failure string

definition as_AnalysisResult :: "py_dict \<Rightarrow> AnalysisResult option" where
  "as_AnalysisResult d =
     (if map_of d ''success'' = Some (VBool True) \<and> map_of d ''error'' = None
      then (case map_of d ''analysis'' of Some (VStr t) \<Rightarrow> Some (Success t) | _ \<Rightarrow> None)
      else if map_of d ''success'' = Some (VBool False) \<and> map_of d ''analysis'' = None
      then (case map_of d ''error'' of Some (VStr m) \<Rightarrow> Some (Failure m) | _ \<Rightarrow> None)
      else None)"

section \<open>initialize_gemini\<close>

text \<open>
  The process environment read by \<^verbatim>\<open>os.getenv\<close>: a missing variable is \<open>None\<close>.
  The library calls are parameters, each of which may raise: \<^verbatim>\<open>load_dotenv()\<close> yields the
  environment with the variables of the \<^verbatim>\<open>.env\<close> file added, \<^verbatim>\<open>genai.configure\<close> yields
  the library's configuration, \<^verbatim>\<open>genai.GenerativeModel\<close> the model object that uses it,
  and \<^verbatim>\<open>Image.open\<close> the image of an uploaded file.
\<close>

type_synonym environ = "string \<Rightarrow> string option"

record ('cfg, 'file, 'img) libraries =
  load_dotenv :: "environ \<Rightarrow> py_exc + environ"
  configure :: "string option \<Rightarrow> py_exc + 'cfg"
  GenerativeModel :: "'cfg \<Rightarrow> string \<Rightarrow> py_exc + 'img model"
  Image_open :: "'file \<Rightarrow> py_exc + 'img"

definition initialize_gemini ::
    "('cfg, 'file, 'img) libraries \<Rightarrow> environ \<Rightarrow> py_exc + 'img model" where
  "initialize_gemini libs env =
     (case load_dotenv libs env of
        Inl e \<Rightarrow> Inl e
      | Inr env' \<Rightarrow>
          (case configure libs (env' ''GOOGLE_API_KEY'') of
             Inl e \<Rightarrow> Inl e
           | Inr cfg \<Rightarrow> GenerativeModel libs cfg ''gemini-2.5-pro''))"

section \<open>main\<close>

text \<open>The options of the health-goal select box, in the order of the source.\<close>

datatype health_goal = General | WeightLoss | MuscleGain | Maintenance

fun goal_label :: "health_goal \<Rightarrow> string" where
  "goal_label General = ''General Info''"
| "goal_label WeightLoss = ''Weight Loss''"
| "goal_label MuscleGain = ''Muscle Gain''"
| "goal_label Maintenance = ''Maintenance''"

text \<open>Lines 142 to 147 of \<^verbatim>\<open>main\<close>: the goal is added to the notes.\<close>

definition add_goal_to_notes :: "string \<Rightarrow> string \<Rightarrow> string" where
  "add_goal_to_notes goal user_notes =
     (if goal \<noteq> ''General Info''
      then (if user_notes \<noteq> []
            then user_notes @ '' | Goal: '' @ goal
            else ''Goal: '' @ goal)
      else user_notes)"

text \<open>
  What the widgets return in one run of the script: the selected goal, the uploaded
  file if any, the text of the notes area, and whether the button was pressed.
\<close>

record 'file widgets =
  w_goal :: health_goal
  w_uploaded_file :: "'file option"
  w_user_notes :: string
  w_button :: bool

text \<open>
  \<^verbatim>\<open>st.session_state\<close> is a dictionary that outlives a run; item assignment replaces the
  value of a key that is present and adds the key otherwise.
\<close>

type_synonym session_state = "(string \<times> py_dict) list"

fun dict_setitem :: "(string \<times> 'v) list \<Rightarrow> string \<Rightarrow> 'v \<Rightarrow> (string \<times> 'v) list" where
  "dict_setitem [] k v = [(k, v)]"
| "dict_setitem ((k', v') # kvs) k v =
     (if k' = k then (k, v) # kvs else (k', v') # dict_setitem kvs k v)"

text \<open>
  One run of \<^verbatim>\<open>main\<close>: the exception that ended it, if any, and the session state it
  leaves. Nothing in \<^verbatim>\<open>main\<close> catches an exception.
\<close>

definition main ::
    "('cfg, 'file, 'img) libraries \<Rightarrow> environ \<Rightarrow> 'file widgets \<Rightarrow> session_state
      \<Rightarrow> py_exc option \<times> session_state" where
  "main libs env w session_state =
     (case initialize_gemini libs env of
        Inl e \<Rightarrow> (Some e, session_state)
      | Inr model \<Rightarrow>
          (let user_notes = add_goal_to_notes (goal_label (w_goal w)) (w_user_notes w) in
           case w_uploaded_file w of
             None \<Rightarrow> (None, session_state)
           | Some uploaded_file \<Rightarrow>
               (case Image_open libs uploaded_file of
                  Inl e \<Rightarrow> (Some e, session_state)
                | Inr img \<Rightarrow>
                    if w_button w
                    then (case fst (analyze_food_image model img (PyStr user_notes)) of
                            Inl e \<Rightarrow> (Some e, session_state)
                          | Inr result \<Rightarrow>
                              (None, dict_setitem session_state ''result'' result))
                    else (None, session_state))))"







section \<open>Test doubles\<close>

text \<open>A model whose transport call has a fixed outcome and leaves the image alone.\<close>

definition fixed_model :: "py_exc + response \<Rightarrow> 'img model" where
  "fixed_model out = \<lparr>generate_content = (\<lambda>p img. (out, img))\<rparr>"



definition no_key :: environ where
  "no_key = (\<lambda>k. None)"



text \<open>A model that answers with the prompt it was sent.\<close>

definition echo_model :: "'img model" where
  "echo_model = \<lparr>generate_content = (\<lambda>p img. (Inr (Response (Inr p)), img))\<rparr>"

text \<open>A model whose transport call answers and changes the image it was given.\<close>

definition mutating_model :: "nat model" where
  "mutating_model =
     \<lparr>generate_content = (\<lambda>p img. (Inr (Response (Inr ''~500 kcal'')), Suc img))\<rparr>"

text \<open>The library of a session whose model is \<open>echo_model\<close>.\<close>

definition echo_libs :: "(string option, 'img, 'img) libraries" where
  "echo_libs =
     \<lparr>load_dotenv = Inr,
      configure = Inr,
      GenerativeModel = (\<lambda>cfg name. Inr echo_model),
      Image_open = Inr\<rparr>"

section \<open>Facts about the prompt and the handler\<close>

lemma full_prompt_PyNone:
  "full_prompt PyNone =
     Inr (SYSTEM_PROMPT @ newline @ newline @ ''No additional notes provided.'')"
  by (simp add: full_prompt_def user_message_def)

lemma full_prompt_PyStr:
  "full_prompt (PyStr n) =
     Inr (SYSTEM_PROMPT @ newline @ newline @
          (if n \<noteq> [] then ''User notes: '' @ n else ''No additional notes provided.''))"
  by (simp add: full_prompt_def user_message_def)

lemma analyze_of_try_body_raise:
  "try_body model img user_notes = (Inl e, img') \<Longrightarrow>
     analyze_food_image model img user_notes = (except_Exception e, img')"
  by (simp add: analyze_food_image_def)

lemma analyze_of_try_body_return:
  "try_body model img user_notes = (Inr d, img') \<Longrightarrow>
     analyze_food_image model img user_notes = (Inr d, img')"
  by (simp add: analyze_food_image_def)

lemma as_AnalysisResult_success:
  "as_AnalysisResult [(''success'', VBool True), (''analysis'', VStr t)] = Some (Success t)"
  by (simp add: as_AnalysisResult_def)

lemma as_AnalysisResult_failure:
  "as_AnalysisResult [(''success'', VBool False), (''error'', VStr m)] = Some (Failure m)"
  by (simp add: as_AnalysisResult_def)

section \<open>The transport call raises\<close>

text \<open>
  Claim C1, as the code has it. When the transport call, made with the prompt built from
  the notes, raises an exception \<open>e\<close>: if \<open>e\<close> is an instance of \<^verbatim>\<open>Exception\<close> and \<^verbatim>\<open>str(e)\<close>
  yields the string \<open>s\<close>, \<^verbatim>\<open>analyze_food_image\<close> returns the failure dictionary whose
  \<^verbatim>\<open>error\<close> is \<open>s\<close>, read as \<open>Failure s\<close>, and raises nothing; if \<open>e\<close> is an instance of
  \<^verbatim>\<open>Exception\<close> and \<^verbatim>\<open>str(e)\<close> raises, that exception leaves the handler; and if \<open>e\<close> is
  not an instance of \<^verbatim>\<open>Exception\<close> (it derives from \<^verbatim>\<open>BaseException\<close> only), it is not
  caught by \<^verbatim>\<open>except Exception\<close> and is raised to the caller. This holds for every
  image and every notes argument.
\<close>

theorem analyze_transport_raises:
  assumes "full_prompt user_notes = Inr p"
    and "generate_content model p img = (Inl e, img')"
  shows "fst (analyze_food_image model img user_notes) =
           (if is_Exception e
            then (case exc_str e of
                    Inl e' \<Rightarrow> Inl e'
                  | Inr s \<Rightarrow> Inr [(''success'', VBool False), (''error'', VStr s)])
            else Inl e)
         \<and> (\<forall>s. as_AnalysisResult [(''success'', VBool False), (''error'', VStr s)] =
                Some (Failure s))"
proof -
  have "try_body model img user_notes = (Inl e, img')"
    using assms by (simp add: try_body_def)
  then show ?thesis
    by (simp add: analyze_of_try_body_raise except_Exception_def as_AnalysisResult_failure)
qed

text \<open>
  The theorem at a transport that raises an error with the message
  \<^verbatim>\<open>403 API key not valid\<close>, for the notes \<^verbatim>\<open>leftover pizza\<close>, and at one that raises an
  error whose \<^verbatim>\<open>__str__\<close> raises a \<^verbatim>\<open>TypeError\<close>.
\<close>

theorem analyze_transport_raises_witness:
  "fst (analyze_food_image (fixed_model (Inl (PyExc True (Inr ''403 API key not valid''))))
          (0::nat) (PyStr ''leftover pizza'')) =
     Inr [(''success'', VBool False), (''error'', VStr ''403 API key not valid'')]
   \<and> fst (analyze_food_image
          (fixed_model (Inl (PyExc True (Inl (PyExc True (Inr ''__str__ returned non-string''))))))
          (0::nat) (PyStr ''leftover pizza'')) =
     Inl (PyExc True (Inr ''__str__ returned non-string''))"
  using analyze_transport_raises
    [of "PyStr ''leftover pizza''"
        "SYSTEM_PROMPT @ newline @ newline @ ''User notes: leftover pizza''"
        "fixed_model (Inl (PyExc True (Inr ''403 API key not valid'')))" "0::nat"
        "PyExc True (Inr ''403 API key not valid'')" 0]
    analyze_transport_raises
    [of "PyStr ''leftover pizza''"
        "SYSTEM_PROMPT @ newline @ newline @ ''User notes: leftover pizza''"
        "fixed_model (Inl (PyExc True (Inl (PyExc True (Inr ''__str__ returned non-string'')))))"
        "0::nat"
        "PyExc True (Inl (PyExc True (Inr ''__str__ returned non-string'')))" 0]
  by (simp add: full_prompt_PyStr fixed_model_def)

text \<open>
  Claim C1 as stated fails: the transport call raises \<^verbatim>\<open>KeyboardInterrupt\<close> (not an
  instance of \<^verbatim>\<open>Exception\<close>; its \<^verbatim>\<open>str\<close> is empty), and \<^verbatim>\<open>analyze_food_image\<close> raises
  it to the caller instead of returning a failure.
\<close>

theorem analyze_KeyboardInterrupt_propagates:
  "fst (generate_content (fixed_model (Inl (PyExc False (Inr ''''))))
          (SYSTEM_PROMPT @ newline @ newline @ ''No additional notes provided.'') (0::nat)) =
     Inl (PyExc False (Inr ''''))
   \<and> fst (analyze_food_image (fixed_model (Inl (PyExc False (Inr '''')))) (0::nat) PyNone) =
     Inl (PyExc False (Inr ''''))"
  by (simp add: analyze_food_image_def try_body_def full_prompt_PyNone fixed_model_def
      except_Exception_def)

section \<open>The transport call returns\<close>

text \<open>
  Claim C2. When the transport call, made with the prompt built from the notes, returns
  a response whose text is \<open>T\<close>, \<^verbatim>\<open>analyze_food_image\<close> returns the success dictionary
  whose \<^verbatim>\<open>analysis\<close> is exactly \<open>T\<close>, read as \<open>Success T\<close>: the text is neither trimmed
  nor parsed nor reformatted. This holds for every image and every notes argument.
\<close>

theorem analyze_returns_text_verbatim:
  assumes "full_prompt user_notes = Inr p"
    and "generate_content model p img = (Inr response, img')"
    and "response_text response = Inr T"
  shows "fst (analyze_food_image model img user_notes) =
           Inr [(''success'', VBool True), (''analysis'', VStr T)]
         \<and> as_AnalysisResult [(''success'', VBool True), (''analysis'', VStr T)] =
           Some (Success T)"
proof -
  have "try_body model img user_notes =
          (Inr [(''success'', VBool True), (''analysis'', VStr T)], img')"
    using assms by (simp add: try_body_def)
  then show ?thesis
    by (simp add: analyze_of_try_body_return as_AnalysisResult_success)
qed

text \<open>
  The theorem at a transport that answers with a text that starts and ends with blanks:
  the blanks are kept.
\<close>

theorem analyze_returns_text_verbatim_witness:
  "fst (analyze_food_image (fixed_model (Inr (Response (Inr ''  ~250 kcal  ''))))
          (0::nat) PyNone) =
     Inr [(''success'', VBool True), (''analysis'', VStr ''  ~250 kcal  '')]
   \<and> as_AnalysisResult [(''success'', VBool True), (''analysis'', VStr ''  ~250 kcal  '')] =
     Some (Success ''  ~250 kcal  '')"
  using analyze_returns_text_verbatim
    [of PyNone "SYSTEM_PROMPT @ newline @ newline @ ''No additional notes provided.''"
        "fixed_model (Inr (Response (Inr ''  ~250 kcal  '')))" "0::nat"
        "Response (Inr ''  ~250 kcal  '')" 0 "''  ~250 kcal  ''"]
  by (simp add: full_prompt_PyNone fixed_model_def)

section \<open>The built instruction text\<close>

lemma G_notin_SYSTEM_PROMPT: "CHR ''G'' \<notin> set SYSTEM_PROMPT"
  by (simp add: SYSTEM_PROMPT_def SYSTEM_PROMPT_lines_def newline_def em_dash_def bullet_def)

lemma sublist_set_subset: "sublist xs ys \<Longrightarrow> set xs \<subseteq> set ys"
  by (auto simp: sublist_def)

lemma analyze_echo_model:
  "full_prompt user_notes = Inr p \<Longrightarrow>
     analyze_food_image echo_model img user_notes =
       (Inr [(''success'', VBool True), (''analysis'', VStr p)], img)"
  by (simp add: analyze_food_image_def try_body_def echo_model_def)

text \<open>
  Claim C5. For every non-empty notes string \<open>n\<close> the built instruction text is the
  fixed template \<^verbatim>\<open>SYSTEM_PROMPT\<close>, a blank line, and the line \<^verbatim>\<open>User notes: \<close> followed by
  \<open>n\<close> verbatim; in particular it contains \<^verbatim>\<open>User notes: \<close> followed by \<open>n\<close>, starts with
  the template and ends with that line. This text is what the transport call receives:
  a model that answers with the prompt it was sent answers with it.
\<close>

theorem full_prompt_user_notes:
  assumes "n \<noteq> []"
  shows "full_prompt (PyStr n) =
           Inr (SYSTEM_PROMPT @ newline @ newline @ ''User notes: '' @ n)
         \<and> sublist (''User notes: '' @ n)
             (SYSTEM_PROMPT @ newline @ newline @ ''User notes: '' @ n)
         \<and> prefix SYSTEM_PROMPT (SYSTEM_PROMPT @ newline @ newline @ ''User notes: '' @ n)
         \<and> suffix (''User notes: '' @ n)
             (SYSTEM_PROMPT @ newline @ newline @ ''User notes: '' @ n)
         \<and> fst (analyze_food_image echo_model img (PyStr n)) =
             Inr [(''success'', VBool True),
                  (''analysis'',
                   VStr (SYSTEM_PROMPT @ newline @ newline @ ''User notes: '' @ n))]"
proof -
  have p: "full_prompt (PyStr n) =
             Inr (SYSTEM_PROMPT @ newline @ newline @ ''User notes: '' @ n)"
    using assms by (simp add: full_prompt_PyStr)
  have "sublist (''User notes: '' @ n)
          ((SYSTEM_PROMPT @ newline @ newline) @ (''User notes: '' @ n) @ [])"
    by (rule sublist_appendI)
  then have s: "sublist (''User notes: '' @ n)
                  (SYSTEM_PROMPT @ newline @ newline @ ''User notes: '' @ n)"
    by simp
  have "suffix (''User notes: '' @ n)
          ((SYSTEM_PROMPT @ newline @ newline) @ (''User notes: '' @ n))"
    by (rule suffixI) simp
  then have x: "suffix (''User notes: '' @ n)
                  (SYSTEM_PROMPT @ newline @ newline @ ''User notes: '' @ n)"
    by simp
  show ?thesis
    using p s x by (simp add: analyze_echo_model)
qed

theorem full_prompt_user_notes_witness:
  "full_prompt (PyStr ''Homemade pasta with olive oil'') =
     Inr (SYSTEM_PROMPT @ newline @ newline @ ''User notes: Homemade pasta with olive oil'')
   \<and> sublist ''User notes: Homemade pasta with olive oil''
       (SYSTEM_PROMPT @ newline @ newline @ ''User notes: Homemade pasta with olive oil'')"
  using full_prompt_user_notes [of "''Homemade pasta with olive oil''" "0::nat"]
  by simp

text \<open>
  Claim C4. When the notes are absent (\<^verbatim>\<open>None\<close>), and in the scenario of empty notes with
  the goal \<^verbatim>\<open>General Info\<close>, the built instruction text is the template, a blank line
  and the sentence \<^verbatim>\<open>No additional notes provided.\<close>: it contains that sentence, ends
  with it, and contains no \<^verbatim>\<open>Goal: \<close> anywhere, so there is no goal suffix. This text is
  what the transport call receives.
\<close>

theorem full_prompt_without_notes:
  "full_prompt PyNone =
     Inr (SYSTEM_PROMPT @ newline @ newline @ ''No additional notes provided.'')
   \<and> full_prompt (PyStr (add_goal_to_notes (goal_label General) '''')) =
     Inr (SYSTEM_PROMPT @ newline @ newline @ ''No additional notes provided.'')
   \<and> sublist ''No additional notes provided.''
       (SYSTEM_PROMPT @ newline @ newline @ ''No additional notes provided.'')
   \<and> suffix ''No additional notes provided.''
       (SYSTEM_PROMPT @ newline @ newline @ ''No additional notes provided.'')
   \<and> \<not> sublist ''Goal: ''
       (SYSTEM_PROMPT @ newline @ newline @ ''No additional notes provided.'')
   \<and> fst (analyze_food_image echo_model img PyNone) =
       Inr [(''success'', VBool True),
            (''analysis'',
             VStr (SYSTEM_PROMPT @ newline @ newline @ ''No additional notes provided.''))]"
proof -
  have a: "full_prompt (PyStr (add_goal_to_notes (goal_label General) '''')) =
             Inr (SYSTEM_PROMPT @ newline @ newline @ ''No additional notes provided.'')"
    by (simp add: add_goal_to_notes_def full_prompt_PyStr)
  have "sublist ''No additional notes provided.''
          ((SYSTEM_PROMPT @ newline @ newline) @ ''No additional notes provided.'' @ [])"
    by (rule sublist_appendI)
  then have b: "sublist ''No additional notes provided.''
                  (SYSTEM_PROMPT @ newline @ newline @ ''No additional notes provided.'')"
    by simp
  have "suffix ''No additional notes provided.''
          ((SYSTEM_PROMPT @ newline @ newline) @ ''No additional notes provided.'')"
    by (rule suffixI) simp
  then have c: "suffix ''No additional notes provided.''
                  (SYSTEM_PROMPT @ newline @ newline @ ''No additional notes provided.'')"
    by simp
  have d: "\<not> sublist ''Goal: ''
              (SYSTEM_PROMPT @ newline @ newline @ ''No additional notes provided.'')"
  proof
    assume "sublist ''Goal: ''
              (SYSTEM_PROMPT @ newline @ newline @ ''No additional notes provided.'')"
    then have "CHR ''G'' \<in>
        set (SYSTEM_PROMPT @ newline @ newline @ ''No additional notes provided.'')"
      by (auto dest: sublist_set_subset)
    then show False
      using G_notin_SYSTEM_PROMPT by (simp add: newline_def)
  qed
  show ?thesis
    using a b c d by (simp add: full_prompt_PyNone analyze_echo_model)
qed

section \<open>The goal in the notes\<close>

lemma initialize_gemini_echo_libs: "initialize_gemini echo_libs env = Inr echo_model"
  by (simp add: initialize_gemini_def echo_libs_def)

lemma Image_open_echo_libs: "Image_open echo_libs f = Inr f"
  by (simp add: echo_libs_def)

lemma goal_label_General: "goal_label g = ''General Info'' \<longleftrightarrow> g = General"
  by (cases g) simp_all

text \<open>
  Claim C3. For every goal other than \<^verbatim>\<open>General\<close> and every notes text \<open>n\<close>, the notes
  passed on are \<open>n\<close> followed by \<^verbatim>\<open> | Goal: \<close> and the goal's label when \<open>n\<close> is not
  empty, and just \<^verbatim>\<open>Goal: \<close> and the label when \<open>n\<close> is empty. They are what \<^verbatim>\<open>main\<close> passes to
  \<^verbatim>\<open>analyze_food_image\<close>: with a file uploaded and the button pressed, a model that
  answers with the prompt it was sent stores the template, a blank line and
  \<^verbatim>\<open>User notes: \<close> followed by these notes. For the notes \<^verbatim>\<open>leftover pizza\<close> and the goal
  \<^verbatim>\<open>WeightLoss\<close> the built instruction contains
  \<^verbatim>\<open>User notes: leftover pizza | Goal: Weight Loss\<close>.
\<close>

theorem add_goal_to_notes_goal:
  assumes "g \<noteq> General"
  shows "(n \<noteq> [] \<longrightarrow>
            add_goal_to_notes (goal_label g) n = n @ '' | Goal: '' @ goal_label g)
         \<and> add_goal_to_notes (goal_label g) [] = ''Goal: '' @ goal_label g
         \<and> main echo_libs env
             \<lparr>w_goal = g, w_uploaded_file = Some f, w_user_notes = n, w_button = True\<rparr>
             session_state =
             (None,
              dict_setitem session_state ''result''
                [(''success'', VBool True),
                 (''analysis'',
                  VStr (SYSTEM_PROMPT @ newline @ newline @ ''User notes: '' @
                        add_goal_to_notes (goal_label g) n))])
         \<and> full_prompt (PyStr (add_goal_to_notes (goal_label WeightLoss) ''leftover pizza'')) =
             Inr (SYSTEM_PROMPT @ newline @ newline @
                  ''User notes: leftover pizza | Goal: Weight Loss'')
         \<and> sublist ''User notes: leftover pizza | Goal: Weight Loss''
             (SYSTEM_PROMPT @ newline @ newline @
              ''User notes: leftover pizza | Goal: Weight Loss'')"
proof -
  have l: "goal_label g \<noteq> ''General Info''"
    using assms by (simp add: goal_label_General)
  have ne: "add_goal_to_notes (goal_label g) n \<noteq> []"
    using l by (simp add: add_goal_to_notes_def)
  have a: "n \<noteq> [] \<longrightarrow>
             add_goal_to_notes (goal_label g) n = n @ '' | Goal: '' @ goal_label g"
    using l by (simp add: add_goal_to_notes_def)
  have b: "add_goal_to_notes (goal_label g) [] = ''Goal: '' @ goal_label g"
    using l by (simp add: add_goal_to_notes_def)
  have p: "full_prompt (PyStr (add_goal_to_notes (goal_label g) n)) =
             Inr (SYSTEM_PROMPT @ newline @ newline @ ''User notes: '' @
                  add_goal_to_notes (goal_label g) n)"
    using ne by (simp add: full_prompt_PyStr)
  have c: "main echo_libs env
             \<lparr>w_goal = g, w_uploaded_file = Some f, w_user_notes = n, w_button = True\<rparr>
             session_state =
             (None,
              dict_setitem session_state ''result''
                [(''success'', VBool True),
                 (''analysis'',
                  VStr (SYSTEM_PROMPT @ newline @ newline @ ''User notes: '' @
                        add_goal_to_notes (goal_label g) n))])"
    by (simp add: main_def initialize_gemini_echo_libs Image_open_echo_libs
        analyze_echo_model [OF p])
  have d: "full_prompt (PyStr (add_goal_to_notes (goal_label WeightLoss) ''leftover pizza'')) =
             Inr (SYSTEM_PROMPT @ newline @ newline @
                  ''User notes: leftover pizza | Goal: Weight Loss'')"
    by (simp add: add_goal_to_notes_def full_prompt_PyStr)
  have "sublist ''User notes: leftover pizza | Goal: Weight Loss''
          ((SYSTEM_PROMPT @ newline @ newline) @
           ''User notes: leftover pizza | Goal: Weight Loss'' @ [])"
    by (rule sublist_appendI)
  then have e: "sublist ''User notes: leftover pizza | Goal: Weight Loss''
                  (SYSTEM_PROMPT @ newline @ newline @
                   ''User notes: leftover pizza | Goal: Weight Loss'')"
    by simp
  show ?thesis
    using a b c d e by blast
qed

text \<open>The theorem at the goal \<^verbatim>\<open>MuscleGain\<close>, with the notes \<^verbatim>\<open>Restaurant serving\<close>.\<close>

theorem add_goal_to_notes_goal_witness:
  "add_goal_to_notes (goal_label MuscleGain) ''Restaurant serving'' =
     ''Restaurant serving | Goal: Muscle Gain''
   \<and> add_goal_to_notes (goal_label MuscleGain) [] = ''Goal: Muscle Gain''
   \<and> main echo_libs no_key
       \<lparr>w_goal = MuscleGain, w_uploaded_file = Some (0::nat),
        w_user_notes = ''Restaurant serving'', w_button = True\<rparr> [] =
       (None,
        [(''result'',
          [(''success'', VBool True),
           (''analysis'',
            VStr (SYSTEM_PROMPT @ newline @ newline @
                  ''User notes: Restaurant serving | Goal: Muscle Gain''))])])"
  using add_goal_to_notes_goal [of MuscleGain "''Restaurant serving''" no_key "0::nat" "[]"]
  by simp

section \<open>The result is a tagged union\<close>



section \<open>Exceptions raised in the body\<close>

text \<open>
  Claim C10, as the code has it. The \<^verbatim>\<open>try\<close> block holds the whole body, so an exception
  \<open>e\<close> raised at any of its steps (the truth test of the notes, their formatting into the
  prompt, the transport call, the reading of the response's text) reaches the handler.
  If \<open>e\<close> is an instance of \<^verbatim>\<open>Exception\<close> and \<^verbatim>\<open>str(e)\<close> yields the string \<open>s\<close>,
  \<^verbatim>\<open>analyze_food_image\<close> returns the failure dictionary whose \<^verbatim>\<open>error\<close> is \<open>s\<close>; if
  \<^verbatim>\<open>str(e)\<close> raises, that exception leaves the handler; and if \<open>e\<close> is not an instance of
  \<^verbatim>\<open>Exception\<close> it propagates to the caller. When the prompt cannot be built the
  transport is not called and the image is left as it was.
\<close>

theorem analyze_catches_Exception_of_body:
  assumes "truthy user_notes = Inl e
         \<or> (truthy user_notes = Inr True \<and> format_value user_notes = Inl e)
         \<or> (\<exists>p img'. full_prompt user_notes = Inr p
               \<and> (generate_content model p img = (Inl e, img')
                    \<or> (\<exists>response. generate_content model p img = (Inr response, img')
                          \<and> response_text response = Inl e)))"
  shows "fst (analyze_food_image model img user_notes) =
           (if is_Exception e
            then (case exc_str e of
                    Inl e' \<Rightarrow> Inl e'
                  | Inr s \<Rightarrow> Inr [(''success'', VBool False), (''error'', VStr s)])
            else Inl e)
         \<and> (full_prompt user_notes = Inl e \<longrightarrow>
               snd (analyze_food_image model img user_notes) = img)"
proof -
  have "\<exists>img'. try_body model img user_notes = (Inl e, img')"
    using assms
    by (auto simp: try_body_def full_prompt_def user_message_def)
  then obtain img' where t: "try_body model img user_notes = (Inl e, img')"
    by blast
  have "full_prompt user_notes = Inl e \<longrightarrow> try_body model img user_notes = (Inl e, img)"
    by (simp add: try_body_def)
  then show ?thesis
    using t by (auto simp: analyze_of_try_body_raise except_Exception_def)
qed

text \<open>
  The theorem at notes whose formatting raises a \<^verbatim>\<open>ValueError\<close>, and at a response
  whose text cannot be read and whose error has a \<^verbatim>\<open>__str__\<close> that raises.
\<close>

theorem analyze_catches_Exception_of_body_witness:
  "fst (analyze_food_image (fixed_model (Inr (Response (Inr ''~500 kcal'')))) (0::nat)
          (PyObj (Inr True) (Inl (PyExc True (Inr ''Invalid format specifier''))))) =
     Inr [(''success'', VBool False), (''error'', VStr ''Invalid format specifier'')]
   \<and> fst (analyze_food_image
          (fixed_model
             (Inr (Response (Inl (PyExc True (Inl (PyExc True (Inr ''bad __str__''))))))))
          (0::nat) PyNone) =
     Inl (PyExc True (Inr ''bad __str__''))"
  using analyze_catches_Exception_of_body
    [of "PyObj (Inr True) (Inl (PyExc True (Inr ''Invalid format specifier'')))"
        "PyExc True (Inr ''Invalid format specifier'')"
        "fixed_model (Inr (Response (Inr ''~500 kcal'')))" "0::nat"]
    analyze_catches_Exception_of_body
    [of PyNone "PyExc True (Inl (PyExc True (Inr ''bad __str__'')))"
        "fixed_model
           (Inr (Response (Inl (PyExc True (Inl (PyExc True (Inr ''bad __str__'')))))))"
        "0::nat"]
  by (simp add: full_prompt_PyNone fixed_model_def)

text \<open>
  Claim C10 as stated fails: notes whose truth test raises \<^verbatim>\<open>SystemExit\<close>, which is not an
  instance of \<^verbatim>\<open>Exception\<close>. The exception is raised while the prompt is built, the
  handler does not catch it, and \<^verbatim>\<open>analyze_food_image\<close> raises it to the caller.
\<close>

theorem analyze_SystemExit_in_prompt_propagates:
  "fst (analyze_food_image (fixed_model (Inr (Response (Inr ''~500 kcal'')))) (0::nat)
          (PyObj (Inl (PyExc False (Inr ''1''))) (Inr ''notes''))) =
     Inl (PyExc False (Inr ''1''))"
  by (simp add: analyze_food_image_def try_body_def full_prompt_def user_message_def
      except_Exception_def)

section \<open>The image\<close>

lemma snd_try_body:
  "snd (try_body model img user_notes) =
     (case full_prompt user_notes of
        Inl e \<Rightarrow> img
      | Inr p \<Rightarrow> snd (generate_content model p img))"
  by (simp add: try_body_def split: sum.splits prod.splits)

lemma snd_analyze_food_image:
  "snd (analyze_food_image model img user_notes) = snd (try_body model img user_notes)"
  by (simp add: analyze_food_image_def split: sum.splits prod.splits)

text \<open>
  Claim C9, as the code has it. \<^verbatim>\<open>analyze_food_image\<close> writes nothing to the image
  itself: it hands the image to one transport call, or to none when the prompt cannot be
  built, so after the call the image is as that transport call left it, or as it was.
  Hence for every model whose transport call leaves the image as it received it, the
  image after \<^verbatim>\<open>analyze_food_image\<close> equals the image before, for every notes argument
  and whatever the outcome: a success dictionary, a failure dictionary or an exception.
\<close>

theorem analyze_leaves_image:
  "snd (analyze_food_image model img user_notes) =
     (case full_prompt user_notes of
        Inl e \<Rightarrow> img
      | Inr p \<Rightarrow> snd (generate_content model p img))
   \<and> ((\<forall>p. snd (generate_content model p img) = img) \<longrightarrow>
        snd (analyze_food_image model img user_notes) = img)"
  by (simp add: snd_analyze_food_image snd_try_body split: sum.splits)

text \<open>
  The theorem at a transport that raises and at one that answers; neither changes the
  image.
\<close>

theorem analyze_leaves_image_witness:
  "snd (analyze_food_image (fixed_model (Inl (PyExc True (Inr ''timeout'')))) (7::nat)
          (PyStr ''Restaurant serving'')) = 7
   \<and> snd (analyze_food_image (fixed_model (Inr (Response (Inr ''~500 kcal'')))) (7::nat)
          PyNone) = 7"
  using analyze_leaves_image
    [of "fixed_model (Inl (PyExc True (Inr ''timeout'')))" "7::nat"
        "PyStr ''Restaurant serving''"]
    analyze_leaves_image
    [of "fixed_model (Inr (Response (Inr ''~500 kcal'')))" "7::nat" PyNone]
  by (simp add: fixed_model_def)

text \<open>
  Claim C9 as stated fails: \<^verbatim>\<open>analyze_food_image\<close> is called with a model whose
  transport call changes the image it is given. The call returns a success, and the
  image, 7 before the call, is 8 after it.
\<close>

theorem analyze_with_mutating_model_changes_image:
  "fst (analyze_food_image mutating_model 7 PyNone) =
     Inr [(''success'', VBool True), (''analysis'', VStr ''~500 kcal'')]
   \<and> snd (analyze_food_image mutating_model 7 PyNone) = 8"
  by (simp add: analyze_food_image_def try_body_def full_prompt_PyNone mutating_model_def)

section \<open>The session state\<close>














end
